theory Spec2Isabelle
  imports Complex_Main "HOL-Library.Char_ord" "HOL-Library.List_Lexorder" "HOL-Library.Multiset"
    "HOL-Library.AList"
begin

section \<open>Python values\<close>

text \<open>
  The hub, the rule engine and the actuators exchange JSON-like values: the state
  snapshot is a dictionary of dictionaries whose leaves are sensor readings
  (floats, booleans), actuator states and strings; a command is a dictionary.
  A float is modelled by the real number it denotes (the sensors produce finite
  floats, rounded to two decimals), a dictionary by an association list in which
  the first entry of a key is the one that counts.
\<close>

datatype pyval =
    PNone
  | PBool bool
  | PInt int
  | PFloat real
  | PStr string
  | PDict "(string \<times> pyval) list"

type_synonym pydict = "(string \<times> pyval) list"

text \<open>
  The exceptions (all subclasses of \<open>Exception\<close>) with their message; a message
  names a type or an attribute between single quotes.
\<close>

datatype pyexn =
    AttributeError string
  | TypeError string
  | ValueError string
  | KeyError string
  | RuntimeError string

fun exn_str :: "pyexn \<Rightarrow> string" where
  "exn_str (AttributeError m) = m"
| "exn_str (TypeError m) = m"
| "exn_str (ValueError m) = m"
| "exn_str (KeyError m) = m"
| "exn_str (RuntimeError m) = m"

definition quoted :: "string \<Rightarrow> string" where
  "quoted s = CHR 0x27 # s @ [CHR 0x27]"

fun type_name :: "pyval \<Rightarrow> string" where
  "type_name PNone = ''NoneType''"
| "type_name (PBool b) = ''bool''"
| "type_name (PInt i) = ''int''"
| "type_name (PFloat r) = ''float''"
| "type_name (PStr s) = ''str''"
| "type_name (PDict d) = ''dict''"

text \<open>Truth value of an object, as \<open>if v:\<close>, \<open>not v\<close> and \<open>bool(v)\<close> take it.\<close>

fun truthy :: "pyval \<Rightarrow> bool" where
  "truthy PNone = False"
| "truthy (PBool b) = b"
| "truthy (PInt i) = (i \<noteq> 0)"
| "truthy (PFloat r) = (r \<noteq> 0)"
| "truthy (PStr s) = (s \<noteq> [])"
| "truthy (PDict d) = (d \<noteq> [])"

text \<open>\<open>bool\<close>, \<open>int\<close> and \<open>float\<close> compare with each other by their numeric value.\<close>

fun num_of :: "pyval \<Rightarrow> real option" where
  "num_of (PBool b) = Some (if b then 1 else 0)"
| "num_of (PInt i) = Some (of_int i)"
| "num_of (PFloat r) = Some r"
| "num_of v = None"

text \<open>\<open>a < b\<close> and \<open>a > b\<close>: numbers with numbers, strings with strings, else TypeError.\<close>

definition py_lt :: "pyval \<Rightarrow> pyval \<Rightarrow> pyexn + bool" where
  "py_lt a b =
     (case (num_of a, num_of b) of
        (Some x, Some y) \<Rightarrow> Inr (x < y)
      | _ \<Rightarrow> (case (a, b) of
                (PStr s, PStr t) \<Rightarrow> Inr (s < t)
              | _ \<Rightarrow> Inl (TypeError (quoted ''<'' @ '' not supported between instances of '' @
                                    quoted (type_name a) @ '' and '' @ quoted (type_name b)))))"

definition py_gt :: "pyval \<Rightarrow> pyval \<Rightarrow> pyexn + bool" where
  "py_gt a b =
     (case (num_of a, num_of b) of
        (Some x, Some y) \<Rightarrow> Inr (x > y)
      | _ \<Rightarrow> (case (a, b) of
                (PStr s, PStr t) \<Rightarrow> Inr (s > t)
              | _ \<Rightarrow> Inl (TypeError (quoted ''>'' @ '' not supported between instances of '' @
                                    quoted (type_name a) @ '' and '' @ quoted (type_name b)))))"

text \<open>\<open>d.get(k, default)\<close> on a dictionary, and \<open>k in d\<close>.\<close>

definition dict_get :: "pydict \<Rightarrow> string \<Rightarrow> pyval \<Rightarrow> pyval" where
  "dict_get d k dflt = (case map_of d k of None \<Rightarrow> dflt | Some v \<Rightarrow> v)"

definition dict_has :: "pydict \<Rightarrow> string \<Rightarrow> bool" where
  "dict_has d k = (map_of d k \<noteq> None)"

text \<open>\<open>v.get(k, default)\<close> on any value: only a dictionary has the method.\<close>

fun py_get :: "pyval \<Rightarrow> string \<Rightarrow> pyval \<Rightarrow> pyexn + pyval" where
  "py_get (PDict d) k dflt = Inr (dict_get d k dflt)"
| "py_get v k dflt =
     Inl (AttributeError (quoted (type_name v) @ '' object has no attribute '' @ quoted ''get''))"

text \<open>
  \<open>a == b\<close>: numbers by value (\<open>True == 1 == 1.0\<close>), strings and \<open>None\<close> by
  identity of the value, dictionaries by their keys and the values under them,
  whatever the insertion order.
\<close>

function (sequential) py_eq :: "pyval \<Rightarrow> pyval \<Rightarrow> bool" where
  "py_eq PNone PNone = True"
| "py_eq (PStr s) (PStr t) = (s = t)"
| "py_eq (PDict xs) (PDict ys) =
     (set (map fst xs) = set (map fst ys) \<and>
      list_all (\<lambda>k. case map_of xs k of
                       None \<Rightarrow> False
                     | Some v \<Rightarrow> (case map_of ys k of None \<Rightarrow> False | Some w \<Rightarrow> py_eq v w))
               (map fst xs))"
| "py_eq a b = (case (num_of a, num_of b) of (Some x, Some y) \<Rightarrow> x = y | _ \<Rightarrow> False)"
  by pat_completeness auto
termination
proof -
  have less: "map_of xs k = Some v \<Longrightarrow> size v < Suc (size_list (size_prod (\<lambda>_. 0) size) xs)"
    for xs :: pydict and k v
    by (induction xs) (auto split: if_splits)
  show ?thesis
    by (relation "measure (\<lambda>(a, b). size a)") (auto dest: less)
qed

definition py_ne :: "pyval \<Rightarrow> pyval \<Rightarrow> bool" where
  "py_ne a b = (\<not> py_eq a b)"

text \<open>Sequencing of computations that may raise: the first exception wins.\<close>

definition bind_exn :: "pyexn + 'a \<Rightarrow> ('a \<Rightarrow> pyexn + 'b) \<Rightarrow> pyexn + 'b" where
  "bind_exn m f = (case m of Inl e \<Rightarrow> Inl e | Inr v \<Rightarrow> f v)"

section \<open>The rule engine (hub/rule_engine.py)\<close>

text \<open>
  A timestamp of \<open>datetime.now()\<close> is a natural number. A condition function maps
  the state snapshot to a value or raises; an action function maps it to a list of
  commands or raises. Calls of the logger are left out: nothing flows back from them.
\<close>

type_synonym datetime = nat

record rule =
  rule_id :: string
  name :: string
  condition_func :: "pydict \<Rightarrow> pyexn + pyval"
  action_func :: "pydict \<Rightarrow> pyexn + pydict list"
  priority :: int
  last_triggered :: "datetime option"

definition Rule_init ::
  "string \<Rightarrow> string \<Rightarrow> (pydict \<Rightarrow> pyexn + pyval) \<Rightarrow> (pydict \<Rightarrow> pyexn + pydict list) \<Rightarrow> int \<Rightarrow> rule"
where
  "Rule_init rid nm cond act prio =
     \<lparr>rule_id = rid, name = nm, condition_func = cond, action_func = act,
      priority = prio, last_triggered = None\<rparr>"

text \<open>\<open>Rule.evaluate\<close>: the value of the condition, \<open>False\<close> when it raises.\<close>

definition Rule_evaluate :: "rule \<Rightarrow> pydict \<Rightarrow> pyval" where
  "Rule_evaluate r state =
     (case condition_func r state of Inl e \<Rightarrow> PBool False | Inr v \<Rightarrow> v)"

text \<open>
  \<open>Rule.execute\<close>: inside the \<open>try\<close>, the timestamp is assigned first and the action
  is called second; an exception of the action gives the empty list. \<open>now\<close> is what
  \<open>datetime.now()\<close> returns at this call.
\<close>

definition Rule_execute :: "datetime \<Rightarrow> rule \<Rightarrow> pydict \<Rightarrow> rule \<times> pydict list" where
  "Rule_execute now r state =
     (let r' = r\<lparr>last_triggered := Some now\<rparr>
      in (r', case action_func r' state of Inl e \<Rightarrow> [] | Inr cs \<Rightarrow> cs))"

record rule_engine =
  config :: pydict
  rules :: "rule list"

text \<open>
  \<open>add_rule\<close> appends the rule and sorts the list by priority; \<open>list.sort\<close> is
  stable, as \<open>sort_key\<close> is.
\<close>

definition add_rule ::
  "string \<Rightarrow> string \<Rightarrow> (pydict \<Rightarrow> pyexn + pyval) \<Rightarrow> (pydict \<Rightarrow> pyexn + pydict list) \<Rightarrow> int \<Rightarrow>
   rule_engine \<Rightarrow> rule_engine"
where
  "add_rule rid nm cond act prio e =
     e\<lparr>rules := sort_key priority (rules e @ [Rule_init rid nm cond act prio])\<rparr>"

text \<open>
  The loop of \<open>evaluate_rules\<close>, with its two accumulators. The rule at position
  \<open>i\<close> of the list reads the clock \<open>clk i\<close> when it is executed. The loop returns
  the rules (their timestamps updated) with the accumulators.
\<close>

fun evaluate_loop ::
  "(nat \<Rightarrow> datetime) \<Rightarrow> pydict \<Rightarrow> rule list \<Rightarrow> nat \<Rightarrow> pydict list \<Rightarrow> string list \<Rightarrow>
   rule list \<times> pydict list \<times> string list"
where
  "evaluate_loop clk state [] i commands triggered_rules = ([], commands, triggered_rules)"
| "evaluate_loop clk state (r # rs) i commands triggered_rules =
     (if truthy (Rule_evaluate r state) then
        (let (r', rule_commands) = Rule_execute (clk i) r state;
             (rs', out) = evaluate_loop clk state rs (Suc i)
                            (commands @ rule_commands) (triggered_rules @ [name r])
         in (r' # rs', out))
      else
        (let (rs', out) = evaluate_loop clk state rs (Suc i) commands triggered_rules
         in (r # rs', out)))"

definition evaluate_rules ::
  "(nat \<Rightarrow> datetime) \<Rightarrow> pydict \<Rightarrow> rule_engine \<Rightarrow> pydict list \<times> rule_engine"
where
  "evaluate_rules clk state e =
     (let (rs', commands, triggered_rules) = evaluate_loop clk state (rules e) 0 [] []
      in (commands, e\<lparr>rules := rs'\<rparr>))"

subsection \<open>The default rules of \<open>_initialize_rules\<close>\<close>

text \<open>
  \<open>rules_config\<close> is \<open>config.get('rules', {})\<close>, any value. In \<open>a and b and c\<close>
  the first falsy operand is the result and the operands after it are not evaluated.
\<close>

definition temp_low_condition :: "pyval \<Rightarrow> pydict \<Rightarrow> pyexn + pyval" where
  "temp_low_condition rules_config state =
     bind_exn (py_get (dict_get state ''temperature'' (PDict [])) ''value'' PNone) (\<lambda>temp.
     bind_exn (py_get (dict_get state ''heater'' (PDict [])) ''state'' (PBool False)) (\<lambda>heater.
       if temp = PNone then Inr (PBool False)
       else
         bind_exn (py_get rules_config ''temperature_threshold_low'' (PFloat 18)) (\<lambda>threshold.
         bind_exn (py_lt temp threshold) (\<lambda>below.
           if \<not> below then Inr (PBool False) else Inr (PBool (\<not> truthy heater))))))"

definition temp_low_action :: "pydict \<Rightarrow> pyexn + pydict list" where
  "temp_low_action state = Inr [[(''actuator'', PStr ''heater''), (''action'', PStr ''turn_on'')]]"

definition temp_high_condition :: "pyval \<Rightarrow> pydict \<Rightarrow> pyexn + pyval" where
  "temp_high_condition rules_config state =
     bind_exn (py_get (dict_get state ''temperature'' (PDict [])) ''value'' PNone) (\<lambda>temp.
     bind_exn (py_get (dict_get state ''heater'' (PDict [])) ''state'' (PBool False)) (\<lambda>heater.
       if temp = PNone then Inr (PBool False)
       else
         bind_exn (py_get rules_config ''temperature_threshold_high'' (PFloat 22)) (\<lambda>threshold.
         bind_exn (py_gt temp threshold) (\<lambda>above.
           if \<not> above then Inr (PBool False) else Inr heater))))"

definition temp_high_action :: "pydict \<Rightarrow> pyexn + pydict list" where
  "temp_high_action state = Inr [[(''actuator'', PStr ''heater''), (''action'', PStr ''turn_off'')]]"

definition motion_light_condition :: "pyval \<Rightarrow> pydict \<Rightarrow> pyexn + pyval" where
  "motion_light_condition rules_config state =
     bind_exn (py_get (dict_get state ''motion'' (PDict [])) ''value'' (PBool False)) (\<lambda>motion.
     bind_exn (py_get (dict_get state ''light'' (PDict [])) ''value'' PNone) (\<lambda>light_level.
     bind_exn (py_get (dict_get state ''light_actuator'' (PDict [])) ''state'' (PBool False)) (\<lambda>lights.
       if \<not> truthy motion then Inr motion
       else if light_level = PNone then Inr (PBool False)
       else
         bind_exn (py_get rules_config ''light_threshold_low'' (PFloat 30)) (\<lambda>threshold.
         bind_exn (py_lt light_level threshold) (\<lambda>below.
           if \<not> below then Inr (PBool False) else Inr (PBool (\<not> truthy lights)))))))"

definition motion_light_action :: "pydict \<Rightarrow> pyexn + pydict list" where
  "motion_light_action state = Inr [[(''actuator'', PStr ''light''), (''action'', PStr ''turn_on'')]]"

definition no_motion_light_condition :: "pydict \<Rightarrow> pyexn + pyval" where
  "no_motion_light_condition state =
     bind_exn (py_get (dict_get state ''motion'' (PDict [])) ''value'' (PBool False)) (\<lambda>motion.
     bind_exn (py_get (dict_get state ''light_actuator'' (PDict [])) ''state'' (PBool False)) (\<lambda>lights.
       if truthy motion then Inr (PBool False) else Inr lights))"

definition no_motion_light_action :: "pydict \<Rightarrow> pyexn + pydict list" where
  "no_motion_light_action state = Inr [[(''actuator'', PStr ''light''), (''action'', PStr ''turn_off'')]]"

definition security_alarm_condition :: "pyval \<Rightarrow> pydict \<Rightarrow> pyexn + pyval" where
  "security_alarm_condition rules_config state =
     bind_exn (py_get (dict_get state ''motion'' (PDict [])) ''value'' (PBool False)) (\<lambda>motion.
     bind_exn (py_get rules_config ''home_occupied'' (PBool True)) (\<lambda>home_occupied.
     bind_exn (py_get (dict_get state ''alarm'' (PDict [])) ''state'' (PBool False)) (\<lambda>alarm.
       if \<not> truthy motion then Inr motion
       else if truthy home_occupied then Inr (PBool False)
       else Inr (PBool (\<not> truthy alarm)))))"

definition security_alarm_action :: "pydict \<Rightarrow> pyexn + pydict list" where
  "security_alarm_action state = Inr [[(''actuator'', PStr ''alarm''), (''action'', PStr ''activate'')]]"

definition initialize_rules :: "rule_engine \<Rightarrow> rule_engine" where
  "initialize_rules e =
     (let rules_config = dict_get (config e) ''rules'' (PDict []);
          e1 = add_rule ''temp_low'' ''Temperature Low - Turn On Heater''
                 (temp_low_condition rules_config) temp_low_action 1 e;
          e2 = add_rule ''temp_high'' ''Temperature High - Turn Off Heater''
                 (temp_high_condition rules_config) temp_high_action 1 e1;
          e3 = add_rule ''motion_light'' ''Motion + Low Light - Turn On Lights''
                 (motion_light_condition rules_config) motion_light_action 2 e2;
          e4 = add_rule ''no_motion_light'' ''No Motion - Turn Off Lights''
                 no_motion_light_condition no_motion_light_action 3 e3
      in add_rule ''security_alarm'' ''Security Alert - Motion When Home Empty''
           (security_alarm_condition rules_config) security_alarm_action 0 e4)"

definition RuleEngine_init :: "pydict \<Rightarrow> rule_engine" where
  "RuleEngine_init cfg = initialize_rules \<lparr>config = cfg, rules = []\<rparr>"

text \<open>
  Vocabulary for the statements about the engine: a rule fires on a snapshot when its
  condition returns a truthy value without raising; its commands are what its action
  returns, none when the action raises. A rule specification is the argument tuple of
  one \<open>add_rule\<close> call, and \<open>add_rules\<close> makes the calls one after the other.
\<close>

definition fires :: "pydict \<Rightarrow> rule \<Rightarrow> bool" where
  "fires state r = (case condition_func r state of Inl e \<Rightarrow> False | Inr v \<Rightarrow> truthy v)"

definition commands_of :: "pydict \<Rightarrow> rule \<Rightarrow> pydict list" where
  "commands_of state r = (case action_func r state of Inl e \<Rightarrow> [] | Inr cs \<Rightarrow> cs)"

type_synonym rule_spec =
  "string \<times> string \<times> (pydict \<Rightarrow> pyexn + pyval) \<times> (pydict \<Rightarrow> pyexn + pydict list) \<times> int"

definition rule_of_spec :: "rule_spec \<Rightarrow> rule" where
  "rule_of_spec s = (case s of (rid, nm, cond, act, prio) \<Rightarrow> Rule_init rid nm cond act prio)"

definition add_rules :: "rule_spec list \<Rightarrow> rule_engine \<Rightarrow> rule_engine" where
  "add_rules specs e =
     fold (\<lambda>s. case s of (rid, nm, cond, act, prio) \<Rightarrow> add_rule rid nm cond act prio) specs e"

text \<open>The five calls of \<open>_initialize_rules\<close>, as specifications.\<close>

definition default_rule_specs :: "pydict \<Rightarrow> rule_spec list" where
  "default_rule_specs cfg =
     (let rules_config = dict_get cfg ''rules'' (PDict []) in
      [(''temp_low'', ''Temperature Low - Turn On Heater'',
          temp_low_condition rules_config, temp_low_action, 1),
       (''temp_high'', ''Temperature High - Turn Off Heater'',
          temp_high_condition rules_config, temp_high_action, 1),
       (''motion_light'', ''Motion + Low Light - Turn On Lights'',
          motion_light_condition rules_config, motion_light_action, 2),
       (''no_motion_light'', ''No Motion - Turn Off Lights'',
          no_motion_light_condition, no_motion_light_action, 3),
       (''security_alarm'', ''Security Alert - Motion When Home Empty'',
          security_alarm_condition rules_config, security_alarm_action, 0)])"

section \<open>Devices (devices/base.py)\<close>

text \<open>
  What a device does to the outside is recorded as a list of events: a warning or an
  information written to the log, the start of a thread (the thread is named by a
  number) and a call of the hook \<open>_on_state_change old new\<close>.
\<close>

datatype event =
    LogInfo string
  | LogWarning string
  | ThreadStart nat
  | OnStateChange pyval pyval

record device =
  device_id :: string
  name :: string
  enabled :: bool
  running :: bool
  thread :: "nat option"

definition Device_init :: "string \<Rightarrow> string \<Rightarrow> bool \<Rightarrow> device" where
  "Device_init did nm en =
     \<lparr>device_id = did, name = nm, enabled = en, running = False, thread = None\<rparr>"

text \<open>\<open>start\<close>; \<open>tid\<close> names the thread object that the call would create.\<close>

definition Device_start :: "nat \<Rightarrow> 'a device_scheme \<Rightarrow> 'a device_scheme \<times> event list" where
  "Device_start tid d =
     (if \<not> enabled d then (d, [LogWarning (name d @ '' is disabled, not starting'')])
      else if running d then (d, [LogWarning (name d @ '' is already running'')])
      else (d\<lparr>running := True, thread := Some tid\<rparr>,
            [ThreadStart tid, LogInfo (name d @ '' started'')]))"

definition Device_stop :: "'a device_scheme \<Rightarrow> 'a device_scheme \<times> event list" where
  "Device_stop d = (d\<lparr>running := False\<rparr>, [LogInfo (name d @ '' stopped'')])"

definition Device_is_running :: "'a device_scheme \<Rightarrow> bool" where
  "Device_is_running d = running d"

record sensor = device +
  update_interval :: real
  current_value :: pyval

definition Sensor_get_current_value :: "'a sensor_scheme \<Rightarrow> pyval" where
  "Sensor_get_current_value s = current_value s"

record actuator = device +
  command_queue :: "pydict list"
  state :: pyval

definition Actuator_init :: "string \<Rightarrow> string \<Rightarrow> bool \<Rightarrow> pydict list \<Rightarrow> actuator" where
  "Actuator_init did nm en q =
     \<lparr>device_id = did, name = nm, enabled = en, running = False, thread = None,
      command_queue = q, state = PNone\<rparr>"

definition Actuator_get_state :: "'a actuator_scheme \<Rightarrow> pyval" where
  "Actuator_get_state a = state a"

text \<open>
  \<open>set_state\<close>: the new value is stored, and the hook is called when
  \<open>old_state != new_state\<close>. The call of the hook is the event; the line that
  \<open>set_state\<close> writes to the log before it, and what the hooks of the three
  actuators do, which is to write to the log, are left out.
\<close>

definition set_state :: "pyval \<Rightarrow> 'a actuator_scheme \<Rightarrow> 'a actuator_scheme \<times> event list" where
  "set_state new_state a =
     (let old_state = state a;
          a' = a\<lparr>state := new_state\<rparr>
      in if py_ne old_state new_state then (a', [OnStateChange old_state new_state])
         else (a', []))"

section \<open>The actuators (devices/actuators.py)\<close>

definition LightActuator_init :: "string \<Rightarrow> string \<Rightarrow> bool \<Rightarrow> pyval \<Rightarrow> pydict list \<Rightarrow> actuator" where
  "LightActuator_init did nm en initial_state q = (Actuator_init did nm en q)\<lparr>state := initial_state\<rparr>"

definition LightActuator_execute_command ::
  "pydict \<Rightarrow> 'a actuator_scheme \<Rightarrow> 'a actuator_scheme \<times> event list"
where
  "LightActuator_execute_command command a =
     (if dict_has command ''action'' then
        (if py_eq (dict_get command ''action'' PNone) (PStr ''turn_on'') then set_state (PBool True) a
         else if py_eq (dict_get command ''action'' PNone) (PStr ''turn_off'') then set_state (PBool False) a
         else if py_eq (dict_get command ''action'' PNone) (PStr ''toggle'') then
           (let current = Actuator_get_state a in set_state (PBool (\<not> truthy current)) a)
         else (a, []))
      else if dict_has command ''state'' then
        set_state (PBool (truthy (dict_get command ''state'' PNone))) a
      else (a, []))"

record heater_actuator = actuator +
  target_temperature :: pyval

definition HeaterActuator_init ::
  "string \<Rightarrow> string \<Rightarrow> bool \<Rightarrow> pyval \<Rightarrow> pyval \<Rightarrow> pydict list \<Rightarrow> heater_actuator"
where
  "HeaterActuator_init did nm en initial_state target q =
     \<lparr>device_id = did, name = nm, enabled = en, running = False, thread = None,
      command_queue = q, state = initial_state, target_temperature = target\<rparr>"

text \<open>
  The heater takes the builtin \<open>float\<close> as a parameter \<open>py_float\<close>. When the
  conversion raises, the state has been set already: the result is the actuator as it
  is then, the events and the exception.
\<close>

definition HeaterActuator_execute_command ::
  "(pyval \<Rightarrow> pyexn + pyval) \<Rightarrow> pydict \<Rightarrow> heater_actuator \<Rightarrow>
   heater_actuator \<times> event list \<times> pyexn option"
where
  "HeaterActuator_execute_command py_float command a =
     (let (a1, events) =
        (if dict_has command ''action'' then
           (if py_eq (dict_get command ''action'' PNone) (PStr ''turn_on'') then set_state (PBool True) a
            else if py_eq (dict_get command ''action'' PNone) (PStr ''turn_off'') then set_state (PBool False) a
            else if py_eq (dict_get command ''action'' PNone) (PStr ''toggle'') then
              (let current = Actuator_get_state a in set_state (PBool (\<not> truthy current)) a)
            else (a, []))
         else if dict_has command ''state'' then
           set_state (PBool (truthy (dict_get command ''state'' PNone))) a
         else (a, []))
      in if dict_has command ''target_temperature'' then
           (case py_float (dict_get command ''target_temperature'' PNone) of
              Inl e \<Rightarrow> (a1, events, Some e)
            | Inr t \<Rightarrow> (a1\<lparr>target_temperature := t\<rparr>, events, None))
         else (a1, events, None))"

definition AlarmActuator_init :: "string \<Rightarrow> string \<Rightarrow> bool \<Rightarrow> pyval \<Rightarrow> pydict list \<Rightarrow> actuator" where
  "AlarmActuator_init did nm en initial_state q = (Actuator_init did nm en q)\<lparr>state := initial_state\<rparr>"

definition AlarmActuator_execute_command ::
  "pydict \<Rightarrow> 'a actuator_scheme \<Rightarrow> 'a actuator_scheme \<times> event list"
where
  "AlarmActuator_execute_command command a =
     (if dict_has command ''action'' then
        (if py_eq (dict_get command ''action'' PNone) (PStr ''activate'') then set_state (PBool True) a
         else if py_eq (dict_get command ''action'' PNone) (PStr ''deactivate'') then set_state (PBool False) a
         else if py_eq (dict_get command ''action'' PNone) (PStr ''toggle'') then
           (let current = Actuator_get_state a in set_state (PBool (\<not> truthy current)) a)
         else (a, []))
      else if dict_has command ''state'' then
        set_state (PBool (truthy (dict_get command ''state'' PNone))) a
      else (a, []))"

section \<open>Routing of commands (web/app.py, hub/smart_hub.py)\<close>

text \<open>
  The registry \<open>actuator_command_queues\<close> maps an actuator name to its queue; a queue
  is the list of the commands put on it, oldest first.
\<close>

type_synonym queues = "string \<rightharpoonup> pydict list"

record response =
  body :: pydict
  status :: nat

text \<open>
  The route \<open>/api/actuator/<actuator_name>\<close>. \<open>json\<close> is what \<open>request.get_json()\<close>
  returns or raises. Every exception inside the handler gives the status 500.
\<close>

definition control_actuator :: "queues \<Rightarrow> string \<Rightarrow> pyexn + pyval \<Rightarrow> response \<times> queues" where
  "control_actuator qs actuator_name json =
     (case json of
        Inl e \<Rightarrow> (\<lparr>body = [(''error'', PStr (exn_str e))], status = 500\<rparr>, qs)
      | Inr j \<Rightarrow>
          (let data = (if truthy j then j else PDict []) in
           case py_get data ''action'' (PStr ''toggle'') of
             Inl e \<Rightarrow> (\<lparr>body = [(''error'', PStr (exn_str e))], status = 500\<rparr>, qs)
           | Inr action \<Rightarrow>
               (case qs actuator_name of
                  None \<Rightarrow>
                    (\<lparr>body = [(''error'', PStr (''Actuator '' @ actuator_name @ '' not found''))],
                      status = 404\<rparr>, qs)
                | Some q \<Rightarrow>
                    (let command = [(''actuator'', PStr actuator_name), (''action'', action)]
                     in (\<lparr>body = [(''success'', PBool True),
                                  (''message'', PStr (''Command sent to '' @ actuator_name))],
                          status = 200\<rparr>,
                         qs(actuator_name \<mapsto> q @ [command]))))))"

text \<open>
  The loop of \<open>_evaluate_and_execute_rules\<close> over the commands of the rule engine.
  The keys of the registry are strings: a name that is no string is not in it, and a
  dictionary as name is unhashable, which raises and ends the loop.
\<close>

fun route_commands :: "queues \<Rightarrow> pydict list \<Rightarrow> queues \<times> pyexn option" where
  "route_commands qs [] = (qs, None)"
| "route_commands qs (command # commands) =
     (case dict_get command ''actuator'' PNone of
        PStr actuator_name \<Rightarrow>
          (case qs actuator_name of
             None \<Rightarrow> route_commands qs commands
           | Some q \<Rightarrow> route_commands (qs(actuator_name \<mapsto> q @ [command])) commands)
      | PDict d \<Rightarrow> (qs, Some (TypeError (''unhashable type: '' @ quoted ''dict'')))
      | _ \<Rightarrow> route_commands qs commands)"

text \<open>\<open>state_copy\<close> is the content of the copy of the state that the method takes.\<close>

definition evaluate_and_execute_rules ::
  "(nat \<Rightarrow> datetime) \<Rightarrow> pydict \<Rightarrow> rule_engine \<Rightarrow> queues \<Rightarrow> rule_engine \<times> queues \<times> pyexn option"
where
  "evaluate_and_execute_rules clk state_copy engine qs =
     (let (commands, engine') = evaluate_rules clk state_copy engine;
          (qs', err) = route_commands qs commands
      in (engine', qs', err))"

section \<open>The aggregate state of the hub (hub/smart_hub.py)\<close>

text \<open>
  The state of the hub is a dictionary object whose entries are dictionary objects
  again, and \<open>dict.copy()\<close> copies one level only. So the dictionaries live in a heap:
  an address holds the entries of one dictionary object, and an entry is a reference
  to a dictionary object or a leaf, a value that the hub stores and never mutates (a
  reading, an actuator state, a string). \<open>state\<close> is the address of \<open>self.state\<close>.
  An address that is not allocated holds no entries.
\<close>

datatype hval = Val pyval | Ref nat

type_synonym hdict = "(string \<times> hval) list"

record smart_hub =
  heap :: "nat \<Rightarrow> hdict"
  next_addr :: nat
  state :: nat
  sensors :: "(string \<times> sensor) list"
  actuators :: "(string \<times> actuator) list"
  sensor_data_queue :: "pydict list"

text \<open>
  An operation on the hub returns a result and the hub after it, or raises: then it
  gives the exception and the hub as it is at that moment.
\<close>

type_synonym 'a hub_op = "smart_hub \<Rightarrow> (pyexn \<times> smart_hub) + ('a \<times> smart_hub)"

definition return_op :: "'a \<Rightarrow> 'a hub_op" where
  "return_op x h = Inr (x, h)"

definition then_do :: "'a hub_op \<Rightarrow> ('a \<Rightarrow> 'b hub_op) \<Rightarrow> 'b hub_op" where
  "then_do m f h = (case m h of Inl x \<Rightarrow> Inl x | Inr (v, h') \<Rightarrow> f v h')"

text \<open>\<open>try: m except Exception: log\<close>\<close>

definition try_op :: "unit hub_op \<Rightarrow> unit hub_op" where
  "try_op m h = (case m h of Inl (e, h') \<Rightarrow> Inr ((), h') | Inr x \<Rightarrow> Inr x)"

fun for_each :: "('x \<Rightarrow> unit hub_op) \<Rightarrow> 'x list \<Rightarrow> unit hub_op" where
  "for_each f [] = return_op ()"
| "for_each f (x # xs) = then_do (f x) (\<lambda>_. for_each f xs)"

text \<open>\<open>self.state\<close>, a new dictionary object \<open>{...}\<close>, \<open>k in obj\<close>, \<open>obj[k]\<close>, \<open>obj[k] = v\<close>.\<close>

definition self_state :: "hval hub_op" where
  "self_state h = Inr (Ref (state h), h)"

definition new_dict :: "hdict \<Rightarrow> hval hub_op" where
  "new_dict d h =
     Inr (Ref (next_addr h),
          h\<lparr>heap := (heap h)(next_addr h := d), next_addr := Suc (next_addr h)\<rparr>)"

definition contains :: "hval \<Rightarrow> string \<Rightarrow> bool hub_op" where
  "contains obj k h =
     (case obj of
        Ref a \<Rightarrow> Inr (map_of (heap h a) k \<noteq> None, h)
      | Val x \<Rightarrow> Inl (TypeError (''argument of type '' @ quoted (type_name x) @ '' is not iterable''), h))"

definition getitem :: "hval \<Rightarrow> string \<Rightarrow> hval hub_op" where
  "getitem obj k h =
     (case obj of
        Ref a \<Rightarrow> (case map_of (heap h a) k of
                    None \<Rightarrow> Inl (KeyError (quoted k), h)
                  | Some v \<Rightarrow> Inr (v, h))
      | Val x \<Rightarrow> Inl (TypeError (quoted (type_name x) @ '' object is not subscriptable''), h))"

definition setitem :: "hval \<Rightarrow> string \<Rightarrow> hval \<Rightarrow> unit hub_op" where
  "setitem obj k v h =
     (case obj of
        Ref a \<Rightarrow> Inr ((), h\<lparr>heap := (heap h)(a := AList.update k v (heap h a))\<rparr>)
      | Val x \<Rightarrow> Inl (TypeError (quoted (type_name x) @ '' object does not support item assignment''), h))"

text \<open>\<open>obj.get(k, {})\<close>: the new dictionary is allocated when it is the result.\<close>

definition get_or_empty :: "hval \<Rightarrow> string \<Rightarrow> hval hub_op" where
  "get_or_empty obj k h =
     (case obj of
        Ref a \<Rightarrow> (case map_of (heap h a) k of
                    None \<Rightarrow> new_dict [] h
                  | Some v \<Rightarrow> Inr (v, h))
      | Val x \<Rightarrow> Inl (AttributeError (quoted (type_name x) @ '' object has no attribute '' @ quoted ''get''), h))"

text \<open>\<open>if k not in obj: obj[k] = {}\<close>\<close>

definition ensure_dict :: "hval \<Rightarrow> string \<Rightarrow> unit hub_op" where
  "ensure_dict obj k =
     then_do (contains obj k) (\<lambda>present.
       if present then return_op ()
       else then_do (new_dict []) (\<lambda>d. setitem obj k d))"

text \<open>The body of the first loop of \<open>_update_state\<close>, for one sensor.\<close>

definition refresh_sensor :: "string \<times> sensor \<Rightarrow> unit hub_op" where
  "refresh_sensor entry =
     (case entry of (sensor_type, sensor) \<Rightarrow>
        then_do self_state (\<lambda>st.
        then_do (ensure_dict st ''sensors'') (\<lambda>_.
        then_do (getitem st ''sensors'') (\<lambda>ss.
        then_do (ensure_dict ss sensor_type) (\<lambda>_.
        then_do (getitem st ''sensors'') (\<lambda>ss'.
        then_do (getitem ss' sensor_type) (\<lambda>slot.
          setitem slot ''value'' (Val (Sensor_get_current_value sensor)))))))))"

text \<open>The body of the second loop, for one actuator.\<close>

definition refresh_actuator :: "string \<times> actuator \<Rightarrow> unit hub_op" where
  "refresh_actuator entry =
     (case entry of (actuator_type, actuator) \<Rightarrow>
        then_do self_state (\<lambda>st.
        then_do (new_dict
                   [(''state'', Val (Actuator_get_state actuator)),
                    (''device_id'', Val (PStr (device_id actuator))),
                    (''name'', Val (PStr (name actuator)))]) (\<lambda>d.
        then_do (getitem st ''actuators'') (\<lambda>acts.
          setitem acts actuator_type d))))"

text \<open>\<open>self.state[key] = self.state.get(part, {}).get(member, {})\<close>\<close>

definition alias_entry :: "string \<Rightarrow> string \<Rightarrow> string \<Rightarrow> unit hub_op" where
  "alias_entry key part member =
     then_do self_state (\<lambda>st.
     then_do (get_or_empty st part) (\<lambda>g.
     then_do (get_or_empty g member) (\<lambda>m.
       setitem st key m)))"

definition update_state :: "unit hub_op" where
  "update_state =
     then_do (\<lambda>h. for_each refresh_sensor (sensors h) h) (\<lambda>_.
     then_do self_state (\<lambda>st.
     then_do (new_dict []) (\<lambda>d.
     then_do (setitem st ''actuators'' d) (\<lambda>_.
     then_do (\<lambda>h. for_each refresh_actuator (actuators h) h) (\<lambda>_.
     then_do (alias_entry ''temperature'' ''sensors'' ''temperature'') (\<lambda>_.
     then_do (alias_entry ''light'' ''sensors'' ''light'') (\<lambda>_.
     then_do (alias_entry ''motion'' ''sensors'' ''motion'') (\<lambda>_.
     then_do (alias_entry ''heater'' ''actuators'' ''heater'') (\<lambda>_.
     then_do (alias_entry ''light_actuator'' ''actuators'' ''light'') (\<lambda>_.
       alias_entry ''alarm'' ''actuators'' ''alarm''))))))))))"

text \<open>
  \<open>_process_sensor_data\<close> drains the queue of readings. \<open>now\<close> is the value of
  \<open>time.time()\<close>. The search ends at the first sensor with the identifier of the
  reading; \<open>None\<close> and the empty key are falsy.
\<close>

definition find_sensor_type :: "(string \<times> sensor) list \<Rightarrow> pyval \<Rightarrow> string option" where
  "find_sensor_type ss sensor_id =
     map_option fst (find (\<lambda>entry. py_eq (PStr (device_id (snd entry))) sensor_id) ss)"

definition process_reading :: "real \<Rightarrow> pydict \<Rightarrow> unit hub_op" where
  "process_reading now data =
     try_op (\<lambda>h.
       (let sensor_id = dict_get data ''sensor_id'' (PStr []);
            sensor_name = dict_get data ''sensor_name'' (PStr []);
            val = dict_get data ''value'' PNone;
            timestamp = dict_get data ''timestamp'' (PFloat now)
        in case find_sensor_type (sensors h) sensor_id of
             None \<Rightarrow> return_op () h
           | Some sensor_type \<Rightarrow>
               if sensor_type = [] then return_op () h
               else
                 (then_do self_state (\<lambda>st.
                  then_do (ensure_dict st ''sensors'') (\<lambda>_.
                  then_do (new_dict
                             [(''value'', Val val), (''timestamp'', Val timestamp),
                              (''sensor_id'', Val sensor_id), (''sensor_name'', Val sensor_name)]) (\<lambda>d.
                  then_do (getitem st ''sensors'') (\<lambda>ss.
                    setitem ss sensor_type d))))) h))"

definition process_sensor_data :: "real \<Rightarrow> unit hub_op" where
  "process_sensor_data now =
     then_do (\<lambda>h. for_each (process_reading now) (sensor_data_queue h) h) (\<lambda>_.
       (\<lambda>h. Inr ((), h\<lparr>sensor_data_queue := []\<rparr>)))"

text \<open>
  \<open>get_state\<close> returns \<open>self.state.copy()\<close>: a new dictionary object with the entries
  of the state.
\<close>

definition get_state :: "hval hub_op" where
  "get_state h = new_dict (heap h (state h)) h"

text \<open>
  What a reader sees when it follows the references from an object, down to a depth
  (the state of the hub is three dictionaries deep).
\<close>

fun contents :: "nat \<Rightarrow> (nat \<Rightarrow> hdict) \<Rightarrow> hval \<Rightarrow> pyval" where
  "contents n hp (Val v) = v"
| "contents 0 hp (Ref a) = PDict []"
| "contents (Suc n) hp (Ref a) = PDict (map (\<lambda>kv. (fst kv, contents n hp (snd kv))) (hp a))"

section \<open>Concrete rules, snapshots and hubs\<close>

text \<open>The inputs at which the theorems below are evaluated.\<close>

text \<open>A rule that always fires and whose action raises.\<close>

definition failing_rule :: rule where
  "failing_rule =
     Rule_init ''r'' ''Failing'' (\<lambda>s. Inr (PBool True)) (\<lambda>s. Inl (RuntimeError ''boom'')) 0"

text \<open>A rule that always fires, and a rule whose condition raises.\<close>

definition heater_rule :: rule where
  "heater_rule = Rule_init ''h'' ''Heater'' (\<lambda>s. Inr (PBool True)) temp_low_action 1"

definition broken_condition_rule :: rule where
  "broken_condition_rule =
     Rule_init ''b'' ''Broken'' (\<lambda>s. Inl (KeyError ''missing'')) motion_light_action 0"

text \<open>
  The snapshot that the hub builds with the motion sensor, the light sensor and the alarm
  disabled, at 15.0 degrees, the heater off and the lights on.
\<close>

definition snapshot_lights_on :: pydict where
  "snapshot_lights_on =
     [(''temperature'', PDict [(''value'', PFloat 15)]),
      (''light'', PDict []),
      (''motion'', PDict []),
      (''heater'', PDict [(''state'', PBool False), (''device_id'', PStr ''heater_01''),
                          (''name'', PStr ''Heater Actuator'')]),
      (''light_actuator'', PDict [(''state'', PBool True), (''device_id'', PStr ''light_act_01''),
                                  (''name'', PStr ''Light Actuator'')]),
      (''alarm'', PDict [])]"

text \<open>A snapshot at 15.0 degrees with the heater and the lights off and no motion.\<close>

definition snapshot_cold :: pydict where
  "snapshot_cold =
     [(''temperature'', PDict [(''value'', PFloat 15)]),
      (''light'', PDict []),
      (''motion'', PDict [(''value'', PBool False)]),
      (''heater'', PDict [(''state'', PBool False)]),
      (''light_actuator'', PDict [(''state'', PBool False)]),
      (''alarm'', PDict [])]"

text \<open>A rule that always fires, with a command for an actuator that is not registered.\<close>

definition oven_rule :: rule where
  "oven_rule =
     Rule_init ''o'' ''Oven'' (\<lambda>s. Inr (PBool True))
       (\<lambda>s. Inr [[(''actuator'', PStr ''oven''), (''action'', PStr ''turn_on'')],
                  [(''actuator'', PStr ''light''), (''action'', PStr ''turn_on'')]]) 0"

definition light_registry :: queues where
  "light_registry = Map.empty(''light'' \<mapsto> [])"

text \<open>
  A hub with the temperature sensor and the light actuator, before its first cycle; the
  sensor at a value with the reading it has sent.
\<close>

definition temperature_sensor :: "real \<Rightarrow> sensor" where
  "temperature_sensor v =
     \<lparr>device_id = ''temp_01'', name = ''Temperature Sensor'', enabled = True, running = True,
      thread = Some 1, update_interval = 2, current_value = PFloat v\<rparr>"

definition temperature_reading :: "real \<Rightarrow> real \<Rightarrow> pydict" where
  "temperature_reading v t =
     [(''value'', PFloat v), (''sensor_id'', PStr ''temp_01''),
      (''sensor_name'', PStr ''Temperature Sensor''), (''timestamp'', PFloat t)]"

definition sense :: "real \<Rightarrow> real \<Rightarrow> smart_hub \<Rightarrow> smart_hub" where
  "sense v t h =
     h\<lparr>sensors := [(''temperature'', temperature_sensor v)],
       sensor_data_queue := sensor_data_queue h @ [temperature_reading v t]\<rparr>"

definition hub0 :: smart_hub where
  "hub0 =
     \<lparr>heap = (\<lambda>a. []), next_addr = 1, state = 0,
      sensors = [(''temperature'', temperature_sensor 20)],
      actuators = [(''light'', LightActuator_init ''light_act_01'' ''Light Actuator'' True (PBool False) [])],
      sensor_data_queue = []\<rparr>"

text \<open>
  One cycle of the controller as far as the state goes, and the run: a cycle with a
  reading of 20.0, a call of \<open>get_state\<close>, then a cycle with a reading of 21.5. The
  result is what the caller sees in its snapshot right after the call and after the
  second cycle.
\<close>

definition cycle :: "real \<Rightarrow> unit hub_op" where
  "cycle now = then_do (process_sensor_data now) (\<lambda>_. update_state)"

definition snapshot_run :: "(pyval \<times> pyval) option" where
  "snapshot_run =
     (case cycle 100 (sense 20 100 hub0) of
        Inl x \<Rightarrow> None
      | Inr (u, h1) \<Rightarrow>
          (case get_state h1 of
             Inl x \<Rightarrow> None
           | Inr (snap, h2) \<Rightarrow>
               (case cycle 102 (sense (43 / 2) 102 h2) of
                  Inl x \<Rightarrow> None
                | Inr (u', h3) \<Rightarrow>
                    Some (contents 3 (heap h2) snap, contents 3 (heap h3) snap))))"

text \<open>The same with no reading in the queue: the second cycle only refreshes the values.\<close>

definition refresh_run :: "(pyval \<times> pyval) option" where
  "refresh_run =
     (case update_state hub0 of
        Inl x \<Rightarrow> None
      | Inr (u, h1) \<Rightarrow>
          (case get_state h1 of
             Inl x \<Rightarrow> None
           | Inr (snap, h2) \<Rightarrow>
               (case update_state (h2\<lparr>sensors := [(''temperature'', temperature_sensor (43 / 2))]\<rparr>) of
                  Inl x \<Rightarrow> None
                | Inr (u', h3) \<Rightarrow>
                    Some (contents 3 (heap h2) snap, contents 3 (heap h3) snap))))"

section \<open>Properties of the rule engine\<close>

lemma truthy_evaluate: "truthy (Rule_evaluate r st) = fires st r"
  by (simp add: Rule_evaluate_def fires_def split: sum.splits)

lemma snd_execute: "snd (Rule_execute now r st) = commands_of st r"
  by (simp add: Rule_execute_def commands_of_def Let_def)

lemma fires_last_triggered: "fires st (r\<lparr>last_triggered := t\<rparr>) = fires st r"
  by (simp add: fires_def)

lemma commands_of_last_triggered: "commands_of st (r\<lparr>last_triggered := t\<rparr>) = commands_of st r"
  by (simp add: commands_of_def)

text \<open>The accumulator of the loop grows by the commands of the rules that fire, in list order.\<close>

lemma evaluate_loop_commands:
  "fst (snd (evaluate_loop clk st rs i commands triggered)) =
     commands @ concat (map (commands_of st) (filter (fires st) rs))"
proof (induction rs arbitrary: i commands triggered)
  case Nil
  then show ?case by simp
next
  case (Cons r rs)
  show ?case
  proof (cases "fires st r")
    case True
    then show ?thesis
      using Cons.IH [of "Suc i" "commands @ commands_of st r" "triggered @ [rule.name r]"]
        snd_execute [of "clk i" r st]
      by (simp add: truthy_evaluate split_beta)
  next
    case False
    then show ?thesis
      using Cons.IH [of "Suc i" commands triggered]
      by (simp add: truthy_evaluate split_beta)
  qed
qed

lemma evaluate_rules_commands:
  "fst (evaluate_rules clk st e) = concat (map (commands_of st) (filter (fires st) (rules e)))"
  using evaluate_loop_commands [of clk st "rules e" 0 "[]" "[]"]
  by (simp add: evaluate_rules_def split_beta)

text \<open>The loop keeps the rules in place, and a rule that does not fire as it is.\<close>

lemma evaluate_loop_unfired:
  "\<not> fires st r \<Longrightarrow>
   fst (evaluate_loop clk st (rs1 @ r # rs2) i commands triggered) ! length rs1 = r"
proof (induction rs1 arbitrary: i commands triggered)
  case Nil
  then show ?case by (simp add: truthy_evaluate split_beta)
next
  case (Cons a rs1)
  then show ?case by (simp add: truthy_evaluate split_beta)
qed

lemma evaluate_loop_same_outputs:
  "concat (map (commands_of st) (filter (fires st)
     (fst (evaluate_loop clk st rs i commands triggered)))) =
   concat (map (commands_of st) (filter (fires st) rs))"
proof (induction rs arbitrary: i commands triggered)
  case Nil
  then show ?case by simp
next
  case (Cons r rs)
  then show ?case
    by (simp add: truthy_evaluate split_beta Rule_execute_def Let_def
        fires_last_triggered commands_of_last_triggered)
qed

text \<open>
  After any sequence of \<open>add_rule\<close> calls the list is the stable sort of the rules in
  the order of their insertion: sorting a sorted prefix again changes nothing.
\<close>

lemma add_rules_rules:
  assumes "sorted (map priority (rules e))"
  shows "rules (add_rules specs e) = sort_key priority (rules e @ map rule_of_spec specs)"
  using assms
proof (induction specs arbitrary: e)
  case Nil
  then show ?case by (simp add: add_rules_def sort_key_id_if_sorted)
next
  case (Cons s specs)
  obtain rid nm cond act prio where s: "s = (rid, nm, cond, act, prio)"
    by (cases s) auto
  let ?e = "add_rule rid nm cond act prio e"
  have sorted: "sorted (map priority (rules ?e))"
    by (simp add: add_rule_def)
  have "rules (add_rules (s # specs) e) = rules (add_rules specs ?e)"
    by (simp add: add_rules_def s)
  also have "\<dots> = sort_key priority (rules ?e @ map rule_of_spec specs)"
    using Cons.IH [OF sorted] .
  also have "\<dots> = sort_key priority (rules e @ map rule_of_spec (s # specs))"
  proof (rule properties_for_sort_key [symmetric])
    show "mset (sort_key priority (rules ?e @ map rule_of_spec specs)) =
          mset (rules e @ map rule_of_spec (s # specs))"
      by (simp add: add_rule_def s rule_of_spec_def)
    show "sorted (map priority (sort_key priority (rules ?e @ map rule_of_spec specs)))"
      by simp
    show "filter (\<lambda>y. priority k = priority y)
            (sort_key priority (rules ?e @ map rule_of_spec specs)) =
          filter (\<lambda>y. priority k = priority y) (rules e @ map rule_of_spec (s # specs))" for k
      using sort_key_stable [of priority "priority k" "rules ?e @ map rule_of_spec specs"]
        sort_key_stable [of priority "priority k" "rules e @ [Rule_init rid nm cond act prio]"]
      by (simp add: eq_commute [of "priority k"] add_rule_def s rule_of_spec_def)
  qed
  finally show ?case .
qed

text \<open>The engine of the constructor is an engine filled by \<open>add_rule\<close> calls.\<close>

lemma RuleEngine_init_add_rules:
  "RuleEngine_init cfg = add_rules (default_rule_specs cfg) \<lparr>config = cfg, rules = []\<rparr>"
  by (simp add: RuleEngine_init_def initialize_rules_def add_rules_def default_rule_specs_def
      add_rule_def Let_def)

lemma default_rules:
  "rules (RuleEngine_init cfg) =
     (let rc = dict_get cfg ''rules'' (PDict []) in
      [Rule_init ''security_alarm'' ''Security Alert - Motion When Home Empty''
         (security_alarm_condition rc) security_alarm_action 0,
       Rule_init ''temp_low'' ''Temperature Low - Turn On Heater''
         (temp_low_condition rc) temp_low_action 1,
       Rule_init ''temp_high'' ''Temperature High - Turn Off Heater''
         (temp_high_condition rc) temp_high_action 1,
       Rule_init ''motion_light'' ''Motion + Low Light - Turn On Lights''
         (motion_light_condition rc) motion_light_action 2,
       Rule_init ''no_motion_light'' ''No Motion - Turn Off Lights''
         no_motion_light_condition no_motion_light_action 3])"
  by (simp add: RuleEngine_init_def initialize_rules_def add_rule_def Rule_init_def Let_def)

lemma evaluate_loop_nth:
  "j < length rs \<Longrightarrow>
   fst (evaluate_loop clk st rs i commands triggered) ! j =
     (if fires st (rs ! j) then (rs ! j)\<lparr>last_triggered := Some (clk (i + j))\<rparr> else rs ! j)"
proof (induction rs arbitrary: i j commands triggered)
  case Nil
  then show ?case by simp
next
  case (Cons r rs)
  show ?case
  proof (cases j)
    case 0
    then show ?thesis
      by (simp add: truthy_evaluate split_beta Rule_execute_def Let_def)
  next
    case (Suc k)
    then have "k < length rs" using Cons.prems by simp
    then show ?thesis
      using Cons.IH [of k "Suc i"] Suc
      by (simp add: truthy_evaluate split_beta)
  qed
qed

subsection \<open>Claims about the rule engine\<close>

text \<open>
  C1. The engine starts with no rule and gets its rules by \<open>add_rule\<close>. Its list is then
  in ascending priority order, the rules of one priority in the order of their
  insertion, and \<open>evaluate_rules\<close> returns the commands of the rules that fire on the
  snapshot, concatenated in the order of that list: no rule that fires keeps a later
  rule from being evaluated.
\<close>

theorem evaluate_rules_priority_order:
  "sorted (map priority (rules (add_rules specs \<lparr>config = cfg, rules = []\<rparr>))) \<and>
   (\<forall>p. filter (\<lambda>r. priority r = p) (rules (add_rules specs \<lparr>config = cfg, rules = []\<rparr>)) =
        filter (\<lambda>r. priority r = p) (map rule_of_spec specs)) \<and>
   fst (evaluate_rules clk st (add_rules specs \<lparr>config = cfg, rules = []\<rparr>)) =
     concat (map (commands_of st)
       (filter (fires st) (rules (add_rules specs \<lparr>config = cfg, rules = []\<rparr>))))"
  by (simp add: add_rules_rules sort_key_stable evaluate_rules_commands)

text \<open>
  C4, as the claim states it, fails: \<open>execute\<close> assigns \<open>last_triggered\<close> before it calls
  the action, so a rule whose action raises has its timestamp updated all the same.
\<close>

theorem last_triggered_counterexample:
  "action_func failing_rule [] = Inl (RuntimeError ''boom'') \<and>
   last_triggered failing_rule = None \<and>
   last_triggered (fst (Rule_execute 7 failing_rule [])) = Some 7 \<and>
   snd (Rule_execute 7 failing_rule []) = []"
  by (simp add: failing_rule_def Rule_init_def Rule_execute_def)

text \<open>
  C4, amended. \<open>execute\<close> sets \<open>last_triggered\<close> to the time of the call whether the
  action returns or raises, and changes nothing else of the rule. In \<open>evaluate_rules\<close>
  a rule is executed exactly when it fires: the rule at position \<open>i\<close> has the timestamp
  of its execution afterwards when it fires, and is unchanged when it does not.
\<close>

theorem last_triggered_on_execution:
  assumes "i < length (rules e)"
  shows "fst (Rule_execute now r st) = r\<lparr>last_triggered := Some now\<rparr> \<and>
         rules (snd (evaluate_rules clk st e)) ! i =
           (if fires st (rules e ! i) then (rules e ! i)\<lparr>last_triggered := Some (clk i)\<rparr>
            else rules e ! i)"
  using assms evaluate_loop_nth [of i "rules e" clk st 0 "[]" "[]"]
  by (simp add: Rule_execute_def Let_def evaluate_rules_def split_beta)

theorem last_triggered_on_execution_witness:
  "rules (snd (evaluate_rules (\<lambda>i. 7) [] \<lparr>config = [], rules = [failing_rule]\<rparr>)) ! 0 =
     failing_rule\<lparr>last_triggered := Some 7\<rparr>"
  using last_triggered_on_execution [where i = 0 and e = "\<lparr>config = [], rules = [failing_rule]\<rparr>"
      and now = 7 and r = failing_rule and st = "[]" and clk = "\<lambda>i. 7"]
  by (simp add: fires_def failing_rule_def Rule_init_def)

text \<open>
  C5. A rule whose condition raises, or whose action raises, adds no command, and the
  commands of the other rules are what they are without it; \<open>evaluate_rules\<close> has a
  result for every rule list. A rule whose condition raises is not executed: it is in
  the list afterwards as it was.
\<close>

theorem evaluate_rules_contains_errors:
  assumes "condition_func r st = Inl x \<or> action_func r st = Inl x"
  shows "fst (evaluate_rules clk st (e\<lparr>rules := rs1 @ r # rs2\<rparr>)) =
           fst (evaluate_rules clk st (e\<lparr>rules := rs1 @ rs2\<rparr>)) \<and>
         (condition_func r st = Inl x \<longrightarrow>
            rules (snd (evaluate_rules clk st (e\<lparr>rules := rs1 @ r # rs2\<rparr>))) ! length rs1 = r)"
proof -
  have "\<not> fires st r \<or> commands_of st r = []"
    using assms by (auto simp: fires_def commands_of_def)
  then have "fst (evaluate_rules clk st (e\<lparr>rules := rs1 @ r # rs2\<rparr>)) =
             fst (evaluate_rules clk st (e\<lparr>rules := rs1 @ rs2\<rparr>))"
    by (auto simp: evaluate_rules_commands)
  moreover have "rules (snd (evaluate_rules clk st (e\<lparr>rules := rs1 @ r # rs2\<rparr>))) ! length rs1 = r"
    if "condition_func r st = Inl x"
  proof -
    have "\<not> fires st r" using that by (simp add: fires_def)
    then show ?thesis
      by (simp add: evaluate_rules_def split_beta evaluate_loop_unfired)
  qed
  ultimately show ?thesis by blast
qed

theorem evaluate_rules_contains_errors_witness:
  "condition_func broken_condition_rule [] = Inl (KeyError ''missing'') \<and>
   fst (evaluate_rules (\<lambda>i. i) [] \<lparr>config = [], rules = [broken_condition_rule, heater_rule]\<rparr>) =
     [[(''actuator'', PStr ''heater''), (''action'', PStr ''turn_on'')]] \<and>
   rules (snd (evaluate_rules (\<lambda>i. i) []
     \<lparr>config = [], rules = [broken_condition_rule, heater_rule]\<rparr>)) ! 0 = broken_condition_rule"
proof -
  have c: "condition_func broken_condition_rule [] = Inl (KeyError ''missing'')"
    by (simp add: broken_condition_rule_def Rule_init_def)
  have "fst (evaluate_rules (\<lambda>i. i) [] \<lparr>config = [], rules = [heater_rule]\<rparr>) =
          [[(''actuator'', PStr ''heater''), (''action'', PStr ''turn_on'')]]"
    by (simp add: evaluate_rules_commands fires_def commands_of_def heater_rule_def Rule_init_def
        temp_low_action_def)
  then show ?thesis
    using c evaluate_rules_contains_errors [where r = broken_condition_rule and st = "[]"
        and x = "KeyError ''missing''" and clk = "\<lambda>i. i"
        and e = "\<lparr>config = [], rules = []\<rparr>" and ?rs1.0 = "[]" and ?rs2.0 = "[heater_rule]"]
    by simp
qed

text \<open>
  C9. Two evaluations in succession on the same snapshot return the same commands in
  the same order: the timestamps written by the first do not reach the second.
\<close>

theorem evaluate_rules_deterministic:
  "fst (evaluate_rules clk2 st (snd (evaluate_rules clk1 st e))) = fst (evaluate_rules clk1 st e)"
  by (simp add: evaluate_rules_commands)
    (simp add: evaluate_rules_def split_beta evaluate_loop_same_outputs)

text \<open>
  C8, as the claim states it, fails: the claim leaves the light actuator open, and with
  the lights on and no motion the rule \<open>no_motion_light\<close> fires as well.
\<close>

theorem default_rules_counterexample:
  "fst (evaluate_rules (\<lambda>i. i) snapshot_lights_on (RuleEngine_init [])) =
     [[(''actuator'', PStr ''heater''), (''action'', PStr ''turn_on'')],
      [(''actuator'', PStr ''light''), (''action'', PStr ''turn_off'')]]"
  by (simp add: evaluate_rules_commands default_rules Let_def fires_def commands_of_def Rule_init_def
      snapshot_lights_on_def dict_get_def bind_exn_def py_lt_def py_gt_def
      temp_low_condition_def temp_high_condition_def motion_light_condition_def
      no_motion_light_condition_def security_alarm_condition_def
      temp_low_action_def temp_high_action_def motion_light_action_def
      no_motion_light_action_def security_alarm_action_def)

text \<open>
  C8, amended: with the default thresholds, a temperature of 15.0, the heater off, no
  motion and the light actuator off (each of the last two absent, falsy or not
  readable), the default rules give the one command that turns the heater on.
\<close>

theorem default_rules_heater_on:
  assumes low: "py_get (dict_get cfg ''rules'' (PDict [])) ''temperature_threshold_low'' (PFloat 18)
                  = Inr (PFloat 18)"
    and high: "py_get (dict_get cfg ''rules'' (PDict [])) ''temperature_threshold_high'' (PFloat 22)
                  = Inr (PFloat 22)"
    and temp: "py_get (dict_get st ''temperature'' (PDict [])) ''value'' PNone = Inr (PFloat 15)"
    and heater: "py_get (dict_get st ''heater'' (PDict [])) ''state'' (PBool False) = Inr heater"
      "\<not> truthy heater"
    and motion: "\<forall>m. py_get (dict_get st ''motion'' (PDict [])) ''value'' (PBool False) = Inr m
                   \<longrightarrow> \<not> truthy m"
    and lights: "\<forall>l. py_get (dict_get st ''light_actuator'' (PDict [])) ''state'' (PBool False) = Inr l
                   \<longrightarrow> \<not> truthy l"
  shows "fst (evaluate_rules clk st (RuleEngine_init cfg)) =
           [[(''actuator'', PStr ''heater''), (''action'', PStr ''turn_on'')]]"
proof -
  let ?rc = "dict_get cfg ''rules'' (PDict [])"
  have sec: "\<not> fires st (Rule_init a b (security_alarm_condition ?rc) c d)" for a b c d
    using motion
    by (auto simp: fires_def Rule_init_def security_alarm_condition_def bind_exn_def
        split: sum.splits)
  have tl: "fires st (Rule_init a b (temp_low_condition ?rc) c d)" for a b c d
    using low temp heater
    by (simp add: fires_def Rule_init_def temp_low_condition_def bind_exn_def py_lt_def)
  have th: "\<not> fires st (Rule_init a b (temp_high_condition ?rc) c d)" for a b c d
    using high temp heater
    by (simp add: fires_def Rule_init_def temp_high_condition_def bind_exn_def py_gt_def)
  have ml: "\<not> fires st (Rule_init a b (motion_light_condition ?rc) c d)" for a b c d
    using motion
    by (auto simp: fires_def Rule_init_def motion_light_condition_def bind_exn_def
        split: sum.splits)
  have nm: "\<not> fires st (Rule_init a b no_motion_light_condition c d)" for a b c d
    using lights
    by (auto simp: fires_def Rule_init_def no_motion_light_condition_def bind_exn_def
        split: sum.splits)
  show ?thesis
    by (simp add: evaluate_rules_commands default_rules Let_def sec tl th ml nm)
      (simp add: commands_of_def Rule_init_def temp_low_action_def)
qed

theorem default_rules_heater_on_witness:
  "fst (evaluate_rules (\<lambda>i. i) snapshot_cold (RuleEngine_init [])) =
     [[(''actuator'', PStr ''heater''), (''action'', PStr ''turn_on'')]]"
  using default_rules_heater_on [where cfg = "[]" and st = snapshot_cold and heater = "PBool False"
      and clk = "\<lambda>i. i"]
  by (simp add: snapshot_cold_def dict_get_def)

section \<open>Properties of the devices\<close>

text \<open>\<open>==\<close> holds between a value and itself (the model has no NaN).\<close>

lemma py_eq_refl: "py_eq v v"
proof (induction v)
  case (PDict xs)
  have "case map_of xs k of None \<Rightarrow> False
        | Some v \<Rightarrow> (case map_of xs k of None \<Rightarrow> False | Some w \<Rightarrow> py_eq v w)"
    if "k \<in> set (map fst xs)" for k
  proof -
    from that obtain v where v: "map_of xs k = Some v"
      by (metis map_of_eq_None_iff not_Some_eq set_map)
    then have "(k, v) \<in> set xs" by (rule map_of_SomeD)
    then have "py_eq v v" using PDict.IH [of "(k, v)" v] by simp
    then show ?thesis using v by simp
  qed
  then show ?case by (simp add: list_all_iff)
qed simp_all

lemma py_eq_PStr: "py_eq v (PStr s) = (v = PStr s)"
  by (cases v) auto

lemma set_state_fst: "fst (set_state w x) = x\<lparr>actuator.state := w\<rparr>"
  by (simp add: set_state_def Let_def)

lemma set_state_snd:
  "snd (set_state w x) =
     (if py_ne (actuator.state x) w then [OnStateChange (actuator.state x) w] else [])"
  by (simp add: set_state_def Let_def)

lemma set_state_twice: "snd (set_state w (fst (set_state w x))) = []"
  by (simp add: set_state_def Let_def py_ne_def py_eq_refl)

text \<open>
  C2. \<open>set_state v\<close> calls the hook \<open>_on_state_change\<close> exactly when \<open>old != v\<close> holds
  for the previous state, and then once, with the previous and the new value; a second
  \<open>set_state v\<close> right after it calls no hook. So a command that sets the state (any
  command but \<open>toggle\<close>, whose target depends on the state) calls no hook when it is
  executed a second time: two executions notify at most once.
\<close>

theorem set_state_notifies_on_change:
  "snd (set_state v a) =
     (if py_ne (actuator.state a) v then [OnStateChange (actuator.state a) v] else []) \<and>
   actuator.state (fst (set_state v a)) = v \<and>
   snd (set_state v (fst (set_state v a))) = [] \<and>
   (dict_get c ''action'' PNone \<noteq> PStr ''toggle'' \<longrightarrow>
      snd (LightActuator_execute_command c (fst (LightActuator_execute_command c a))) = [] \<and>
      snd (AlarmActuator_execute_command c (fst (AlarmActuator_execute_command c a))) = [] \<and>
      fst (snd (HeaterActuator_execute_command py_float c
        (fst (HeaterActuator_execute_command py_float c h)))) = [])"
proof -
  have light: "snd (LightActuator_execute_command c (fst (LightActuator_execute_command c a))) = []"
    if "dict_get c ''action'' PNone \<noteq> PStr ''toggle''"
    using that by (simp add: LightActuator_execute_command_def py_eq_PStr set_state_twice)
  have alarm: "snd (AlarmActuator_execute_command c (fst (AlarmActuator_execute_command c a))) = []"
    if "dict_get c ''action'' PNone \<noteq> PStr ''toggle''"
    using that by (simp add: AlarmActuator_execute_command_def py_eq_PStr set_state_twice)
  have heater: "fst (snd (HeaterActuator_execute_command py_float c
        (fst (HeaterActuator_execute_command py_float c h)))) = []"
    if "dict_get c ''action'' PNone \<noteq> PStr ''toggle''"
    using that
    by (cases "py_float (dict_get c ''target_temperature'' PNone)")
      (simp_all add: HeaterActuator_execute_command_def py_eq_PStr split_beta
        set_state_fst set_state_snd py_ne_def py_eq_refl)
  have notify: "snd (set_state v a) =
     (if py_ne (actuator.state a) v then [OnStateChange (actuator.state a) v] else [])"
    by (rule set_state_snd)
  have stored: "actuator.state (fst (set_state v a)) = v"
    by (simp add: set_state_fst)
  have again: "snd (set_state v (fst (set_state v a))) = []"
    by (rule set_state_twice)
  show ?thesis
    using notify stored again light alarm heater by blast
qed

theorem set_state_notifies_on_change_witness:
  "snd (LightActuator_execute_command [(''action'', PStr ''turn_on'')]
     (LightActuator_init ''light_act_01'' ''Light Actuator'' True (PBool False) [])) =
     [OnStateChange (PBool False) (PBool True)] \<and>
   snd (LightActuator_execute_command [(''action'', PStr ''turn_on'')]
     (fst (LightActuator_execute_command [(''action'', PStr ''turn_on'')]
       (LightActuator_init ''light_act_01'' ''Light Actuator'' True (PBool False) [])))) = []"
proof -
  have first: "snd (LightActuator_execute_command [(''action'', PStr ''turn_on'')]
     (LightActuator_init ''light_act_01'' ''Light Actuator'' True (PBool False) [])) =
     [OnStateChange (PBool False) (PBool True)]"
    by (simp add: LightActuator_execute_command_def LightActuator_init_def Actuator_init_def
        set_state_def Let_def py_ne_def dict_has_def dict_get_def)
  have "dict_get [(''action'', PStr ''turn_on'')] ''action'' PNone \<noteq> PStr ''toggle''"
    by (simp add: dict_get_def)
  then show ?thesis
    using first set_state_notifies_on_change
      [where c = "[(''action'', PStr ''turn_on'')]"
        and a = "LightActuator_init ''light_act_01'' ''Light Actuator'' True (PBool False) []"
        and h = "HeaterActuator_init ''heater_01'' ''Heater Actuator'' True (PBool False) (PFloat 20) []"
        and py_float = "\<lambda>v. Inr v" and v = "PBool True"]
    by simp
qed

text \<open>
  C7. \<open>start\<close> on a device that is disabled or running returns the device as it is and
  starts no thread (it writes a warning to the log and does not raise: the function has
  no exception among its results). On an enabled device that is not running it sets the
  running flag, starts exactly one thread and leaves the other fields as they are.
\<close>

theorem start_idempotent:
  "(\<not> enabled d \<or> running d \<longrightarrow>
      fst (Device_start tid d) = d \<and>
      filter (\<lambda>ev. \<exists>t. ev = ThreadStart t) (snd (Device_start tid d)) = []) \<and>
   (enabled d \<and> \<not> running d \<longrightarrow>
      fst (Device_start tid d) = d\<lparr>running := True, thread := Some tid\<rparr> \<and>
      running (fst (Device_start tid d)) \<and>
      filter (\<lambda>ev. \<exists>t. ev = ThreadStart t) (snd (Device_start tid d)) = [ThreadStart tid])"
  by (simp add: Device_start_def)

theorem start_idempotent_witness:
  "fst (Device_start 1 (Device_init ''temp_01'' ''Temperature Sensor'' False)) =
     Device_init ''temp_01'' ''Temperature Sensor'' False \<and>
   snd (Device_start 1 (Device_init ''temp_01'' ''Temperature Sensor'' False)) =
     [LogWarning ''Temperature Sensor is disabled, not starting''] \<and>
   fst (Device_start 1 (Device_init ''temp_01'' ''Temperature Sensor'' True)) =
     (Device_init ''temp_01'' ''Temperature Sensor'' True)\<lparr>running := True, thread := Some 1\<rparr> \<and>
   fst (Device_start 2 (fst (Device_start 1 (Device_init ''temp_01'' ''Temperature Sensor'' True)))) =
     fst (Device_start 1 (Device_init ''temp_01'' ''Temperature Sensor'' True))"
  using start_idempotent [where d = "Device_init ''temp_01'' ''Temperature Sensor'' False" and tid = 1]
    start_idempotent [where d = "Device_init ''temp_01'' ''Temperature Sensor'' True" and tid = 1]
    start_idempotent [where d = "fst (Device_start 1 (Device_init ''temp_01'' ''Temperature Sensor'' True))" and tid = 2]
  by (simp add: Device_init_def Device_start_def)

section \<open>Properties of the actuators and of the routing\<close>

lemma dict_has_agree:
  "\<forall>k. k \<noteq> ''state'' \<longrightarrow> map_of c1 k = map_of c2 k \<Longrightarrow> k \<noteq> ''state'' \<Longrightarrow>
   dict_has c1 k = dict_has c2 k \<and> dict_get c1 k d = dict_get c2 k d"
  by (simp add: dict_has_def dict_get_def)

text \<open>
  C10. A command with the key \<open>action\<close> has the effect of its action and of nothing
  else: \<open>turn_on\<close> (for the alarm \<open>activate\<close>) sets the state to \<open>True\<close>, \<open>turn_off\<close>
  (\<open>deactivate\<close>) sets it to \<open>False\<close>, \<open>toggle\<close> sets it to the negation
  of the current state, and any other action leaves the actuator as it is; the heater
  takes its target temperature from the command besides. The key \<open>state\<close> has no
  part in it: two commands that have the key \<open>action\<close> and differ at most under the
  key \<open>state\<close> (in its value or in its presence) have the same effect on each of
  the three actuators. Without the key \<open>action\<close> the key \<open>state\<close> decides: the state
  is set to its truth value.
\<close>

theorem action_key_shadows_state_key:
  assumes "dict_has c1 ''action''"
    and "\<forall>k. k \<noteq> ''state'' \<longrightarrow> map_of c1 k = map_of c2 k"
  shows "LightActuator_execute_command c1 a = LightActuator_execute_command c2 a \<and>
         HeaterActuator_execute_command py_float c1 h = HeaterActuator_execute_command py_float c2 h \<and>
         AlarmActuator_execute_command c1 b = AlarmActuator_execute_command c2 b \<and>
         (\<not> dict_has c ''action'' \<and> dict_has c ''state'' \<longrightarrow>
            LightActuator_execute_command c a =
              set_state (PBool (truthy (dict_get c ''state'' PNone))) a \<and>
            AlarmActuator_execute_command c b =
              set_state (PBool (truthy (dict_get c ''state'' PNone))) b \<and>
            actuator.state (fst (HeaterActuator_execute_command py_float c h)) =
              PBool (truthy (dict_get c ''state'' PNone)) \<and>
            fst (snd (HeaterActuator_execute_command py_float c h)) =
              snd (set_state (PBool (truthy (dict_get c ''state'' PNone))) h)) \<and>
         LightActuator_execute_command c1 a =
           (if dict_get c1 ''action'' PNone = PStr ''turn_on'' then set_state (PBool True) a
            else if dict_get c1 ''action'' PNone = PStr ''turn_off'' then set_state (PBool False) a
            else if dict_get c1 ''action'' PNone = PStr ''toggle''
              then set_state (PBool (\<not> truthy (actuator.state a))) a
            else (a, [])) \<and>
         AlarmActuator_execute_command c1 b =
           (if dict_get c1 ''action'' PNone = PStr ''activate'' then set_state (PBool True) b
            else if dict_get c1 ''action'' PNone = PStr ''deactivate'' then set_state (PBool False) b
            else if dict_get c1 ''action'' PNone = PStr ''toggle''
              then set_state (PBool (\<not> truthy (actuator.state b))) b
            else (b, [])) \<and>
         HeaterActuator_execute_command py_float c1 h =
           (let r = (if dict_get c1 ''action'' PNone = PStr ''turn_on'' then set_state (PBool True) h
                     else if dict_get c1 ''action'' PNone = PStr ''turn_off''
                       then set_state (PBool False) h
                     else if dict_get c1 ''action'' PNone = PStr ''toggle''
                       then set_state (PBool (\<not> truthy (actuator.state h))) h
                     else (h, []))
            in if dict_has c1 ''target_temperature'' then
                 (case py_float (dict_get c1 ''target_temperature'' PNone) of
                    Inl e \<Rightarrow> (fst r, snd r, Some e)
                  | Inr t \<Rightarrow> ((fst r)\<lparr>target_temperature := t\<rparr>, snd r, None))
               else (fst r, snd r, None))"
proof -
  have act: "dict_has c2 ''action''"
    "dict_get c1 ''action'' PNone = dict_get c2 ''action'' PNone"
    using assms dict_has_agree [of c1 c2 "''action''" PNone] by simp_all
  have tt: "dict_has c1 ''target_temperature'' = dict_has c2 ''target_temperature''"
    "dict_get c1 ''target_temperature'' PNone = dict_get c2 ''target_temperature'' PNone"
    using assms dict_has_agree [of c1 c2 "''target_temperature''" PNone] by simp_all
  have light: "LightActuator_execute_command c1 a = LightActuator_execute_command c2 a"
    using assms(1) act by (simp add: LightActuator_execute_command_def)
  have alarm: "AlarmActuator_execute_command c1 b = AlarmActuator_execute_command c2 b"
    using assms(1) act by (simp add: AlarmActuator_execute_command_def)
  have heater: "HeaterActuator_execute_command py_float c1 h =
                HeaterActuator_execute_command py_float c2 h"
    using assms(1) act tt by (simp add: HeaterActuator_execute_command_def)
  have state_only: "\<not> dict_has c ''action'' \<and> dict_has c ''state'' \<longrightarrow>
            LightActuator_execute_command c a =
              set_state (PBool (truthy (dict_get c ''state'' PNone))) a \<and>
            AlarmActuator_execute_command c b =
              set_state (PBool (truthy (dict_get c ''state'' PNone))) b \<and>
            actuator.state (fst (HeaterActuator_execute_command py_float c h)) =
              PBool (truthy (dict_get c ''state'' PNone)) \<and>
            fst (snd (HeaterActuator_execute_command py_float c h)) =
              snd (set_state (PBool (truthy (dict_get c ''state'' PNone))) h)"
    by (simp add: LightActuator_execute_command_def AlarmActuator_execute_command_def
        HeaterActuator_execute_command_def set_state_def Let_def split: sum.splits)
  have light_action: "LightActuator_execute_command c1 a =
           (if dict_get c1 ''action'' PNone = PStr ''turn_on'' then set_state (PBool True) a
            else if dict_get c1 ''action'' PNone = PStr ''turn_off'' then set_state (PBool False) a
            else if dict_get c1 ''action'' PNone = PStr ''toggle''
              then set_state (PBool (\<not> truthy (actuator.state a))) a
            else (a, []))"
    using assms(1)
    by (simp add: LightActuator_execute_command_def py_eq_PStr Actuator_get_state_def)
  have alarm_action: "AlarmActuator_execute_command c1 b =
           (if dict_get c1 ''action'' PNone = PStr ''activate'' then set_state (PBool True) b
            else if dict_get c1 ''action'' PNone = PStr ''deactivate'' then set_state (PBool False) b
            else if dict_get c1 ''action'' PNone = PStr ''toggle''
              then set_state (PBool (\<not> truthy (actuator.state b))) b
            else (b, []))"
    using assms(1)
    by (simp add: AlarmActuator_execute_command_def py_eq_PStr Actuator_get_state_def)
  have heater_action: "HeaterActuator_execute_command py_float c1 h =
           (let r = (if dict_get c1 ''action'' PNone = PStr ''turn_on'' then set_state (PBool True) h
                     else if dict_get c1 ''action'' PNone = PStr ''turn_off''
                       then set_state (PBool False) h
                     else if dict_get c1 ''action'' PNone = PStr ''toggle''
                       then set_state (PBool (\<not> truthy (actuator.state h))) h
                     else (h, []))
            in if dict_has c1 ''target_temperature'' then
                 (case py_float (dict_get c1 ''target_temperature'' PNone) of
                    Inl e \<Rightarrow> (fst r, snd r, Some e)
                  | Inr t \<Rightarrow> ((fst r)\<lparr>target_temperature := t\<rparr>, snd r, None))
               else (fst r, snd r, None))"
    using assms(1)
    by (cases "py_float (dict_get c1 ''target_temperature'' PNone)")
      (simp_all add: HeaterActuator_execute_command_def py_eq_PStr Actuator_get_state_def
        split_beta Let_def)
  show ?thesis
    using light alarm heater state_only light_action alarm_action heater_action by blast
qed

text \<open>
  The three actuators at a command that has both keys, each with an action that
  contradicts the key \<open>state\<close>, and the light at a command with the key \<open>state\<close> alone.
\<close>

theorem action_key_shadows_state_key_witness:
  "LightActuator_execute_command [(''action'', PStr ''turn_off''), (''state'', PBool True)]
     (LightActuator_init ''light_act_01'' ''Light Actuator'' True (PBool True) []) =
   ((LightActuator_init ''light_act_01'' ''Light Actuator'' True (PBool True) [])
      \<lparr>actuator.state := PBool False\<rparr>,
    [OnStateChange (PBool True) (PBool False)]) \<and>
   LightActuator_execute_command [(''action'', PStr ''turn_off'')]
     (LightActuator_init ''light_act_01'' ''Light Actuator'' True (PBool True) []) =
   ((LightActuator_init ''light_act_01'' ''Light Actuator'' True (PBool True) [])
      \<lparr>actuator.state := PBool False\<rparr>,
    [OnStateChange (PBool True) (PBool False)]) \<and>
   AlarmActuator_execute_command [(''action'', PStr ''activate''), (''state'', PBool False)]
     (AlarmActuator_init ''alarm_01'' ''Alarm Actuator'' True (PBool False) []) =
   ((AlarmActuator_init ''alarm_01'' ''Alarm Actuator'' True (PBool False) [])
      \<lparr>actuator.state := PBool True\<rparr>,
    [OnStateChange (PBool False) (PBool True)]) \<and>
   HeaterActuator_execute_command (\<lambda>v. Inr v)
     [(''action'', PStr ''toggle''), (''state'', PBool False), (''target_temperature'', PFloat 21)]
     (HeaterActuator_init ''heater_01'' ''Heater Actuator'' True (PBool False) (PFloat 20) []) =
   ((HeaterActuator_init ''heater_01'' ''Heater Actuator'' True (PBool False) (PFloat 20) [])
      \<lparr>actuator.state := PBool True, target_temperature := PFloat 21\<rparr>,
    [OnStateChange (PBool False) (PBool True)], None) \<and>
   actuator.state (fst (LightActuator_execute_command [(''state'', PInt 1)]
     (LightActuator_init ''light_act_01'' ''Light Actuator'' True (PBool False) []))) = PBool True"
proof -
  let ?light = "LightActuator_init ''light_act_01'' ''Light Actuator'' True (PBool True) []"
  let ?dark = "LightActuator_init ''light_act_01'' ''Light Actuator'' True (PBool False) []"
  let ?alarm = "AlarmActuator_init ''alarm_01'' ''Alarm Actuator'' True (PBool False) []"
  let ?heater =
    "HeaterActuator_init ''heater_01'' ''Heater Actuator'' True (PBool False) (PFloat 20) []"
  have off: "dict_has [(''action'', PStr ''turn_off''), (''state'', PBool True)] ''action''"
    "\<forall>k. k \<noteq> ''state'' \<longrightarrow>
       map_of [(''action'', PStr ''turn_off''), (''state'', PBool True)] k =
       map_of [(''action'', PStr ''turn_off'')] k"
    by (simp_all add: dict_has_def)
  have on: "dict_has [(''action'', PStr ''activate''), (''state'', PBool False)] ''action''"
    "\<forall>k. k \<noteq> ''state'' \<longrightarrow>
       map_of [(''action'', PStr ''activate''), (''state'', PBool False)] k =
       map_of [(''action'', PStr ''activate'')] k"
    by (simp_all add: dict_has_def)
  have tog: "dict_has [(''action'', PStr ''toggle''), (''state'', PBool False),
                       (''target_temperature'', PFloat 21)] ''action''"
    "\<forall>k. k \<noteq> ''state'' \<longrightarrow>
       map_of [(''action'', PStr ''toggle''), (''state'', PBool False),
               (''target_temperature'', PFloat 21)] k =
       map_of [(''action'', PStr ''toggle''), (''target_temperature'', PFloat 21)] k"
    by (simp_all add: dict_has_def)
  note whole_l = action_key_shadows_state_key [OF off,
      where a = ?light and b = ?alarm and h = ?heater and py_float = "\<lambda>v. Inr v"
        and c = "[(''state'', PInt 1)]"]
  note whole_al = action_key_shadows_state_key [OF on,
      where a = ?dark and b = ?alarm and h = ?heater and py_float = "\<lambda>v. Inr v"
        and c = "[(''state'', PInt 1)]"]
  note whole_he = action_key_shadows_state_key [OF tog,
      where a = ?dark and b = ?alarm and h = ?heater and py_float = "\<lambda>v. Inr v"
        and c = "[(''state'', PInt 1)]"]
  note same = whole_l [THEN conjunct1]
  note l = whole_l [THEN conjunct2, THEN conjunct2, THEN conjunct2, THEN conjunct2, THEN conjunct1]
  note al = whole_al [THEN conjunct2, THEN conjunct2, THEN conjunct2, THEN conjunct2,
      THEN conjunct2, THEN conjunct1]
  note he = whole_he [THEN conjunct2, THEN conjunct2, THEN conjunct2, THEN conjunct2,
      THEN conjunct2, THEN conjunct2]
  note only = whole_al [THEN conjunct2, THEN conjunct2, THEN conjunct2, THEN conjunct1,
      THEN mp, THEN conjunct1]
  have st: "\<not> dict_has [(''state'', PInt 1)] ''action'' \<and> dict_has [(''state'', PInt 1)] ''state''"
    by (simp add: dict_has_def)
  have c1: "LightActuator_execute_command [(''action'', PStr ''turn_off''), (''state'', PBool True)]
      ?light = (?light\<lparr>actuator.state := PBool False\<rparr>, [OnStateChange (PBool True) (PBool False)])"
    using l
    by (simp add: dict_get_def set_state_def Let_def py_ne_def LightActuator_init_def
        Actuator_init_def)
  have c2: "LightActuator_execute_command [(''action'', PStr ''turn_off'')] ?light =
      (?light\<lparr>actuator.state := PBool False\<rparr>, [OnStateChange (PBool True) (PBool False)])"
    using same c1 by simp
  have c3: "AlarmActuator_execute_command [(''action'', PStr ''activate''), (''state'', PBool False)]
      ?alarm = (?alarm\<lparr>actuator.state := PBool True\<rparr>, [OnStateChange (PBool False) (PBool True)])"
    using al
    by (simp add: dict_get_def set_state_def Let_def py_ne_def AlarmActuator_init_def
        Actuator_init_def)
  have c4: "HeaterActuator_execute_command (\<lambda>v. Inr v)
      [(''action'', PStr ''toggle''), (''state'', PBool False), (''target_temperature'', PFloat 21)]
      ?heater =
      (?heater\<lparr>actuator.state := PBool True, target_temperature := PFloat 21\<rparr>,
       [OnStateChange (PBool False) (PBool True)], None)"
    using he
    by (simp add: dict_get_def dict_has_def set_state_def Let_def py_ne_def HeaterActuator_init_def)
  have c5: "actuator.state (fst (LightActuator_execute_command [(''state'', PInt 1)] ?dark)) =
      PBool True"
    using only [OF st]
    by (simp add: dict_get_def set_state_def Let_def)
  show ?thesis using c1 c2 c3 c4 c5 by blast
qed

text \<open>Routing keeps the set of registered names.\<close>

lemma route_commands_registry:
  "(fst (route_commands qs cs) n = None) = (qs n = None)"
proof (induction cs arbitrary: qs)
  case Nil
  then show ?case by simp
next
  case (Cons c cs)
  show ?case
  proof (cases "dict_get c ''actuator'' PNone")
    case (PStr nm)
    then show ?thesis using Cons.IH by (cases "qs nm") auto
  qed (use Cons.IH in auto)
qed

text \<open>What routing adds to the queue of a name are commands that carry this name.\<close>

lemma route_commands_added:
  "fst (route_commands qs cs) n = Some q \<Longrightarrow>
   \<exists>q0 added. qs n = Some q0 \<and> q = q0 @ added \<and>
     list_all (\<lambda>c. c \<in> set cs \<and> dict_get c ''actuator'' PNone = PStr n) added"
proof (induction cs arbitrary: qs q)
  case Nil
  then show ?case by simp
next
  case (Cons c cs)
  have weaken: "\<exists>q0 added. qs n = Some q0 \<and> q = q0 @ added \<and>
     list_all (\<lambda>x. x \<in> set (c # cs) \<and> dict_get x ''actuator'' PNone = PStr n) added"
    if "fst (route_commands qs cs) n = Some q"
  proof -
    from Cons.IH [OF that] obtain q0 added where
      "qs n = Some q0" "q = q0 @ added"
      "list_all (\<lambda>x. x \<in> set cs \<and> dict_get x ''actuator'' PNone = PStr n) added"
      by blast
    then show ?thesis by (auto simp: list_all_iff)
  qed
  show ?case
  proof (cases "dict_get c ''actuator'' PNone")
    case (PStr nm)
    show ?thesis
    proof (cases "qs nm")
      case None
      then show ?thesis using Cons.prems PStr weaken by simp
    next
      case (Some q1)
      with Cons.prems PStr
      have r: "fst (route_commands (qs(nm \<mapsto> q1 @ [c])) cs) n = Some q" by simp
      from Cons.IH [OF r] obtain q0 added where
        q0: "(qs(nm \<mapsto> q1 @ [c])) n = Some q0" "q = q0 @ added"
        "list_all (\<lambda>x. x \<in> set cs \<and> dict_get x ''actuator'' PNone = PStr n) added"
        by blast
      show ?thesis
      proof (cases "n = nm")
        case True
        then have "qs n = Some q1" "q = q1 @ (c # added)"
          using Some q0 by auto
        moreover have
          "list_all (\<lambda>x. x \<in> set (c # cs) \<and> dict_get x ''actuator'' PNone = PStr n) (c # added)"
          using q0(3) PStr True by (auto simp: list_all_iff)
        ultimately show ?thesis by blast
      next
        case False
        then have "qs n = Some q0" using q0 by simp
        moreover have
          "list_all (\<lambda>x. x \<in> set (c # cs) \<and> dict_get x ''actuator'' PNone = PStr n) added"
          using q0(3) by (auto simp: list_all_iff)
        ultimately show ?thesis using q0(2) by blast
      qed
    qed
  next
    case (PDict d)
    then show ?thesis using Cons.prems by simp
  qed (use Cons.prems weaken in auto)
qed

text \<open>A command for a name that is not registered is routed as if it were not there.\<close>

lemma route_commands_skip:
  "dict_get c ''actuator'' PNone = PStr nm \<Longrightarrow> qs nm = None \<Longrightarrow>
   route_commands qs (cs1 @ c # cs2) = route_commands qs (cs1 @ cs2)"
proof (induction cs1 arbitrary: qs)
  case Nil
  then show ?case by simp
next
  case (Cons x cs1)
  show ?case
  proof (cases "dict_get x ''actuator'' PNone")
    case (PStr n)
    show ?thesis
    proof (cases "qs n")
      case None
      then show ?thesis using Cons PStr by simp
    next
      case (Some q1)
      then have "(qs(n \<mapsto> q1 @ [x])) nm = None" using Cons.prems by auto
      then have "route_commands (qs(n \<mapsto> q1 @ [x])) (cs1 @ c # cs2) =
                 route_commands (qs(n \<mapsto> q1 @ [x])) (cs1 @ cs2)"
        by (rule Cons.IH [OF Cons.prems(1)])
      then show ?thesis using PStr Some by simp
    qed
  qed (use Cons in auto)
qed

text \<open>
  C6. Let the name \<open>nm\<close> be absent from the registry. The route of the web application
  leaves every queue as it is, whatever the request, and answers a request whose body
  is a JSON object (or absent or falsy) with the status 404 and the message that the
  actuator is not found. In a controller cycle a command of the rule engine with the
  name \<open>nm\<close> is routed as if it were not in the list, the name stays absent, and what
  a queue gains are commands that carry the name of this queue.
\<close>

theorem unknown_actuator_not_enqueued:
  assumes "qs nm = None"
  shows "snd (control_actuator qs nm json) = qs \<and>
         (json = Inr j \<and> (\<not> truthy j \<or> (\<exists>d. j = PDict d)) \<longrightarrow>
            fst (control_actuator qs nm json) =
              \<lparr>body = [(''error'', PStr (''Actuator '' @ nm @ '' not found''))], status = 404\<rparr>) \<and>
         (dict_get c ''actuator'' PNone = PStr nm \<longrightarrow>
            route_commands qs (cs1 @ c # cs2) = route_commands qs (cs1 @ cs2)) \<and>
         fst (snd (evaluate_and_execute_rules clk st engine qs)) nm = None \<and>
         (\<forall>n q. fst (snd (evaluate_and_execute_rules clk st engine qs)) n = Some q \<longrightarrow>
            (\<exists>q0 added. qs n = Some q0 \<and> q = q0 @ added \<and>
               list_all (\<lambda>x. dict_get x ''actuator'' PNone = PStr n) added))"
proof -
  have web: "snd (control_actuator qs nm json) = qs"
    using assms by (simp add: control_actuator_def Let_def split: sum.splits)
  have not_found: "json = Inr j \<and> (\<not> truthy j \<or> (\<exists>d. j = PDict d)) \<longrightarrow>
            fst (control_actuator qs nm json) =
              \<lparr>body = [(''error'', PStr (''Actuator '' @ nm @ '' not found''))], status = 404\<rparr>"
    using assms by (auto simp: control_actuator_def Let_def)
  have skip: "dict_get c ''actuator'' PNone = PStr nm \<longrightarrow>
            route_commands qs (cs1 @ c # cs2) = route_commands qs (cs1 @ cs2)"
    using assms route_commands_skip by blast
  have q: "fst (snd (evaluate_and_execute_rules clk st engine qs)) =
           fst (route_commands qs (fst (evaluate_rules clk st engine)))"
    by (simp add: evaluate_and_execute_rules_def split_beta)
  have absent: "fst (snd (evaluate_and_execute_rules clk st engine qs)) nm = None"
    using assms by (simp add: q route_commands_registry)
  have gains: "\<exists>q0 added. qs n = Some q0 \<and> q' = q0 @ added \<and>
               list_all (\<lambda>x. dict_get x ''actuator'' PNone = PStr n) added"
    if "fst (snd (evaluate_and_execute_rules clk st engine qs)) n = Some q'" for n q'
  proof -
    from that have "fst (route_commands qs (fst (evaluate_rules clk st engine))) n = Some q'"
      by (simp add: q)
    from route_commands_added [OF this] show ?thesis
      by (auto simp: list_all_iff)
  qed
  show ?thesis using web not_found skip absent gains by blast
qed

theorem unknown_actuator_not_enqueued_witness:
  "control_actuator light_registry ''oven'' (Inr (PDict [(''action'', PStr ''turn_on'')])) =
     (\<lparr>body = [(''error'', PStr ''Actuator oven not found'')], status = 404\<rparr>, light_registry) \<and>
   fst (snd (evaluate_and_execute_rules (\<lambda>i. i) [] \<lparr>config = [], rules = [oven_rule]\<rparr>
     light_registry)) ''oven'' = None \<and>
   fst (snd (evaluate_and_execute_rules (\<lambda>i. i) [] \<lparr>config = [], rules = [oven_rule]\<rparr>
     light_registry)) ''light'' =
     Some [[(''actuator'', PStr ''light''), (''action'', PStr ''turn_on'')]]"
proof -
  have absent: "light_registry ''oven'' = None"
    by (simp add: light_registry_def)
  have light: "fst (snd (evaluate_and_execute_rules (\<lambda>i. i) [] \<lparr>config = [], rules = [oven_rule]\<rparr>
     light_registry)) ''light'' =
     Some [[(''actuator'', PStr ''light''), (''action'', PStr ''turn_on'')]]"
    by (simp add: evaluate_and_execute_rules_def split_beta evaluate_rules_commands fires_def
        commands_of_def oven_rule_def Rule_init_def light_registry_def dict_get_def)
  show ?thesis
    using light absent unknown_actuator_not_enqueued
        [where qs = light_registry and nm = "''oven''"
          and json = "Inr (PDict [(''action'', PStr ''turn_on'')])"
          and j = "PDict [(''action'', PStr ''turn_on'')]"
          and clk = "\<lambda>i. i" and st = "[]" and engine = "\<lparr>config = [], rules = [oven_rule]\<rparr>"]
    by (simp add: prod_eq_iff)
qed

section \<open>The snapshot of the state\<close>

lemmas hub_op_defs =
  cycle_def process_sensor_data_def process_reading_def find_sensor_type_def update_state_def
  refresh_sensor_def refresh_actuator_def alias_entry_def ensure_dict_def get_or_empty_def
  get_state_def self_state_def new_dict_def contains_def getitem_def setitem_def
  then_do_def try_op_def return_op_def
  Sensor_get_current_value_def Actuator_get_state_def

text \<open>
  C3 does not hold of the code: \<open>get_state\<close> copies the top level of the state only,
  and the dictionaries under \<open>sensors\<close> are the ones that the hub goes on writing
  to. In the run below the caller takes its snapshot after a cycle with a reading of
  20.0; after the next cycle, with a reading of 21.5, the same snapshot shows 21.5 under
  \<open>sensors\<close> and still 20.0 under \<open>temperature\<close>. The entries of the actuators
  are built anew in every cycle and stay as they were.
\<close>

theorem snapshot_shares_sensor_entries:
  "snapshot_run =
     Some
      (PDict
        [(''sensors'',
          PDict
           [(''temperature'',
             PDict
              [(''value'', PFloat 20), (''timestamp'', PFloat 100),
               (''sensor_id'', PStr ''temp_01''),
               (''sensor_name'', PStr ''Temperature Sensor'')])]),
         (''actuators'',
          PDict
           [(''light'',
             PDict
              [(''state'', PBool False), (''device_id'', PStr ''light_act_01''),
               (''name'', PStr ''Light Actuator'')])]),
         (''temperature'',
          PDict
           [(''value'', PFloat 20), (''timestamp'', PFloat 100),
            (''sensor_id'', PStr ''temp_01''),
            (''sensor_name'', PStr ''Temperature Sensor'')]),
         (''light'', PDict []), (''motion'', PDict []), (''heater'', PDict []),
         (''light_actuator'',
          PDict
           [(''state'', PBool False), (''device_id'', PStr ''light_act_01''),
            (''name'', PStr ''Light Actuator'')]),
         (''alarm'', PDict [])],
       PDict
        [(''sensors'',
          PDict
           [(''temperature'',
             PDict
              [(''value'', PFloat (43 / 2)), (''timestamp'', PFloat 102),
               (''sensor_id'', PStr ''temp_01''),
               (''sensor_name'', PStr ''Temperature Sensor'')])]),
         (''actuators'',
          PDict
           [(''light'',
             PDict
              [(''state'', PBool False), (''device_id'', PStr ''light_act_01''),
               (''name'', PStr ''Light Actuator'')])]),
         (''temperature'',
          PDict
           [(''value'', PFloat 20), (''timestamp'', PFloat 100),
            (''sensor_id'', PStr ''temp_01''),
            (''sensor_name'', PStr ''Temperature Sensor'')]),
         (''light'', PDict []), (''motion'', PDict []), (''heater'', PDict []),
         (''light_actuator'',
          PDict
           [(''state'', PBool False), (''device_id'', PStr ''light_act_01''),
            (''name'', PStr ''Light Actuator'')]),
         (''alarm'', PDict [])])"
  by (simp add: snapshot_run_def hub0_def sense_def temperature_sensor_def temperature_reading_def
      LightActuator_init_def Actuator_init_def hub_op_defs dict_get_def numeral_3_eq_3)

text \<open>
  With no reading in between, \<open>_update_state\<close> writes the new value into the
  dictionary that the snapshot shares: the snapshot changes under both keys.
\<close>

lemma refresh_mutates_snapshot:
  "refresh_run =
     Some
      (PDict
        [(''sensors'', PDict [(''temperature'', PDict [(''value'', PFloat 20)])]),
         (''actuators'',
          PDict
           [(''light'',
             PDict
              [(''state'', PBool False), (''device_id'', PStr ''light_act_01''),
               (''name'', PStr ''Light Actuator'')])]),
         (''temperature'', PDict [(''value'', PFloat 20)]),
         (''light'', PDict []), (''motion'', PDict []), (''heater'', PDict []),
         (''light_actuator'',
          PDict
           [(''state'', PBool False), (''device_id'', PStr ''light_act_01''),
            (''name'', PStr ''Light Actuator'')]),
         (''alarm'', PDict [])],
       PDict
        [(''sensors'', PDict [(''temperature'', PDict [(''value'', PFloat (43 / 2))])]),
         (''actuators'',
          PDict
           [(''light'',
             PDict
              [(''state'', PBool False), (''device_id'', PStr ''light_act_01''),
               (''name'', PStr ''Light Actuator'')])]),
         (''temperature'', PDict [(''value'', PFloat (43 / 2))]),
         (''light'', PDict []), (''motion'', PDict []), (''heater'', PDict []),
         (''light_actuator'',
          PDict
           [(''state'', PBool False), (''device_id'', PStr ''light_act_01''),
            (''name'', PStr ''Light Actuator'')]),
         (''alarm'', PDict [])])"
  by (simp add: refresh_run_def hub0_def temperature_sensor_def
      LightActuator_init_def Actuator_init_def hub_op_defs numeral_3_eq_3)

end
